theory Spec2Isabelle
  imports Complex_Main "HOL-Library.AList"
begin


section \<open>Values of the form session\<close>

text \<open>
  The value map of the preview (\<open>Record<string, any>\<close>) holds JavaScript values. The
  strings of ids, formulas and values are lists of code units below 256. A finite number
  is the real number the double stands for; the infinities carry their sign (\<open>True\<close> for
  the positive one), and \<open>NaN\<close> is the one primitive that is not strictly equal to itself.
  An array carries the address of its object next to its elements, because \<open>===\<close> on
  objects compares addresses. \<open>JBuiltin n\<close> is the object that a plain object yields
  under the inherited name \<open>n\<close>: a function of \<open>Object.prototype\<close>, or that prototype
  itself for \<open>__proto__\<close>.
\<close>

datatype jsval =
    JUndefined
  | JNull
  | JBool bool
  | JNum real
  | JInfinity bool
  | JNaN
  | JStr string
  | JArr nat "string list"
  | JBuiltin string

text \<open>
  Labels and the variable names made from them are strings of any UTF-16 code units; a
  code unit is its number. \<open>utf16\<close> reads a string of code units below 256 as such a
  string.
\<close>

type_synonym ustring = "nat list"

definition utf16 :: "string \<Rightarrow> ustring" where
  "utf16 s = map of_char s"

text \<open>
  What the engine and \<open>JSON.parse\<close> throw. \<open>Unmodelled\<close> is no exception of
  JavaScript: the fragments at the end of the definitions answer with it on the inputs
  they do not cover.
\<close>

datatype exn = SyntaxError | ReferenceError | TypeError | Unmodelled

text \<open>
  A value map is a plain object: the map holds its own properties, and it inherits those
  of \<open>Object.prototype\<close>.
\<close>

type_synonym valuemap = "string \<rightharpoonup> jsval"

definition object_prototype_names :: "string list" where
  "object_prototype_names =
     [''constructor'', ''__defineGetter__'', ''__defineSetter__'', ''hasOwnProperty'',
      ''__lookupGetter__'', ''__lookupSetter__'', ''isPrototypeOf'', ''propertyIsEnumerable'',
      ''toString'', ''valueOf'', ''__proto__'', ''toLocaleString'']"

definition inherited :: "string \<Rightarrow> bool" where
  "inherited k \<longleftrightarrow> k \<in> set object_prototype_names"

text \<open>
  \<open>values[id]\<close>: the own property, else the inherited one, else \<open>undefined\<close>.
\<close>

definition lookup :: "valuemap \<Rightarrow> string \<Rightarrow> jsval" where
  "lookup m k =
     (case m k of
        Some v \<Rightarrow> v
      | None \<Rightarrow> if inherited k then JBuiltin k else JUndefined)"

text \<open>\<open>id in values\<close>: own or inherited.\<close>

definition has_key :: "valuemap \<Rightarrow> string \<Rightarrow> bool" where
  "has_key m k \<longleftrightarrow> inherited k \<or> m k \<noteq> None"

text \<open>
  \<open>values[id] = v\<close>. Under the name \<open>__proto__\<close> an object that has no own property of
  that name hands the value to the setter it inherits, and no entry is made. (When the
  value is an object or \<open>null\<close> the setter changes the prototype of the map; the
  statements below that depend on it leave that id out.)
\<close>

definition assign :: "valuemap \<Rightarrow> string \<Rightarrow> jsval \<Rightarrow> valuemap" where
  "assign m k v = (if k = ''__proto__'' \<and> m k = None then m else m(k \<mapsto> v))"

text \<open>\<open>a !== b\<close>.\<close>

fun strict_neq :: "jsval \<Rightarrow> jsval \<Rightarrow> bool" where
  "strict_neq JUndefined JUndefined = False"
| "strict_neq JNull JNull = False"
| "strict_neq (JBool a) (JBool b) = (a \<noteq> b)"
| "strict_neq (JNum a) (JNum b) = (a \<noteq> b)"
| "strict_neq (JInfinity a) (JInfinity b) = (a \<noteq> b)"
| "strict_neq (JStr a) (JStr b) = (a \<noteq> b)"
| "strict_neq (JArr a _) (JArr b _) = (a \<noteq> b)"
| "strict_neq (JBuiltin a) (JBuiltin b) = (a \<noteq> b)"
| "strict_neq _ _ = True"


text \<open>\<open>val === '' || val === undefined || val === null\<close>.\<close>

fun blank :: "jsval \<Rightarrow> bool" where
  "blank (JStr s) = (s = [])"
| "blank JUndefined = True"
| "blank JNull = True"
| "blank _ = False"

section \<open>Field definitions\<close>

record validation =
  required :: bool
  minLength :: "nat option"
  maxLength :: "nat option"
  email :: "bool option"
  password :: "bool option"
  correctAnswers :: "string list option"
  correctAnswer :: "string option"

record field =
  derived :: "bool option"
  parentFields :: "string list option"
  formula :: "string option"
  field_id :: string
  field_type :: string
  label :: ustring
  defaultValue :: "string option"
  options :: "string list option"
  validation :: validation

record form_schema =
  schema_name :: string
  schema_fields :: "field list"

text \<open>
  \<open>field.derived && field.parentFields && field.formula\<close>: the flag is true, the parent
  list is there (an empty array is truthy) and the formula is a non-empty string.
\<close>

definition recomputed :: "field \<Rightarrow> bool" where
  "recomputed f \<longleftrightarrow>
     derived f = Some True \<and> parentFields f \<noteq> None \<and> formula f \<noteq> None \<and> formula f \<noteq> Some []"

text \<open>The parent list and the formula of a field, read where the guard above holds.\<close>

definition parentsOf :: "field \<Rightarrow> string list" where
  "parentsOf f = (case parentFields f of Some ps \<Rightarrow> ps | None \<Rightarrow> [])"

definition formulaOf :: "field \<Rightarrow> string" where
  "formulaOf f = (case formula f of Some s \<Rightarrow> s | None \<Rightarrow> [])"

text \<open>\<open>!field.derived\<close>.\<close>

definition not_derived :: "field \<Rightarrow> bool" where
  "not_derived f \<longleftrightarrow> derived f \<noteq> Some True"

section \<open>The platform\<close>

text \<open>
  What the browser supplies: the clock, the offset of local time, the parsing of date
  strings that are not in the date-only ISO form, and \<open>String.prototype.toLowerCase\<close>,
  which follows the case mappings of Unicode.
\<close>

record platform =
  now :: int
  localTZA :: "int \<Rightarrow> int"
  implParse :: "string \<Rightarrow> int option"
  toLowerCase :: "ustring \<Rightarrow> ustring"

section \<open>Variable names\<close>

text \<open>
  The class \<open>\s\<close>: tab, line feed, vertical tab, form feed, carriage return, space,
  no-break space, U+1680, U+2000 to U+200A, U+2028, U+2029, U+202F, U+205F, U+3000 and
  U+FEFF.
\<close>

definition is_white :: "nat \<Rightarrow> bool" where
  "is_white u \<longleftrightarrow>
     u \<in> set [0x09, 0x0A, 0x0B, 0x0C, 0x0D, 0x20, 0xA0, 0x1680, 0x2028, 0x2029, 0x202F, 0x205F,
                0x3000, 0xFEFF] \<or>
     (0x2000 \<le> u \<and> u \<le> 0x200A)"

text \<open>
  \<open>s.replace(/\s+/g, '_')\<close>: scanning from the left, each maximal run of whitespace is
  cut out and one underscore (code unit 95) is put in its place.
\<close>

function replace_spaces :: "ustring \<Rightarrow> ustring" where
  "replace_spaces [] = []"
| "replace_spaces (c # cs) =
     (if is_white c then 95 # replace_spaces (dropWhile is_white cs)
      else c # replace_spaces cs)"
  by pat_completeness auto
termination
  by (relation "measure length") (auto simp: less_Suc_eq_le length_dropWhile_le)

text \<open>\<open>parentField.label.toLowerCase().replace(/\s+/g, '_')\<close>.\<close>

definition variableName :: "platform \<Rightarrow> ustring \<Rightarrow> ustring" where
  "variableName env l = replace_spaces (toLowerCase env l)"

section \<open>Building the context of a derived field\<close>

text \<open>
  An object with string keys keeps them in insertion order; assigning to a key that is
  there replaces its value in place. The context is therefore an association list
  updated with \<^const>\<open>AList.update\<close>. (Keys that are array indices, such as \<open>7\<close>, come
  first when an object is listed. The list is used to test the values and as the
  parameters of a function with their arguments; a parameter that is a numeral is a
  syntax error wherever it stands, so the outcome is that of the list in insertion
  order.)
\<close>

type_synonym formula_context = "(ustring \<times> jsval) list"


definition setVariable :: "ustring \<Rightarrow> jsval \<Rightarrow> formula_context \<Rightarrow> formula_context" where
  "setVariable n v ctx = (if n = utf16 ''__proto__'' then ctx else AList.update n v ctx)"

text \<open>\<open>schema.fields.find(f => f.id === parentId)\<close>.\<close>

definition find_field :: "field list \<Rightarrow> string \<Rightarrow> field option" where
  "find_field fs parentId = find (\<lambda>f. field_id f = parentId) fs"

text \<open>The body of \<open>field.parentFields.forEach(parentId => ...)\<close>.\<close>

definition addParent ::
  "platform \<Rightarrow> field list \<Rightarrow> valuemap \<Rightarrow> string \<Rightarrow> formula_context \<times> bool \<Rightarrow> formula_context \<times> bool" where
  "addParent env fs currentValues parentId st =
     (case st of (ctx, hasAllParents) \<Rightarrow>
        (case find_field fs parentId of
           Some parentField \<Rightarrow>
             if has_key currentValues parentId
             then (setVariable (variableName env (label parentField))
                     (lookup currentValues parentId) ctx,
                   hasAllParents)
             else (ctx, False)
         | None \<Rightarrow> (ctx, False)))"

definition buildContext ::
  "platform \<Rightarrow> field list \<Rightarrow> valuemap \<Rightarrow> string list \<Rightarrow> formula_context \<times> bool" where
  "buildContext env fs currentValues parents =
     fold (addParent env fs currentValues) parents ([], True)"

section \<open>Dates\<close>

text \<open>
  The \<open>Date\<close> objects of \<open>calculateAge\<close>. A date is its time value, milliseconds since
  1970-01-01T00:00Z; an invalid date (\<open>isNaN(birth.getTime())\<close>) is \<open>None\<close>. The platform
  supplies the clock, the offset of local time and the parsing of strings that are not in
  the date-only ISO form.
\<close>

definition msPerDay :: int where
  "msPerDay = 86400000"

definition is_digit :: "char \<Rightarrow> bool" where
  "is_digit c \<longleftrightarrow> c \<in> set ''0123456789''"

definition digit_val :: "char \<Rightarrow> nat" where
  "digit_val c = (case map_of (zip ''0123456789'' [0, 1, 2, 3, 4, 5, 6, 7, 8, 9]) c of
                    Some n \<Rightarrow> n | None \<Rightarrow> 0)"

definition digits_val :: "string \<Rightarrow> nat" where
  "digits_val s = fold (\<lambda>c n. 10 * n + digit_val c) s 0"

definition is_leap :: "int \<Rightarrow> bool" where
  "is_leap y \<longleftrightarrow> y mod 4 = 0 \<and> (y mod 100 \<noteq> 0 \<or> y mod 400 = 0)"

definition days_in_month :: "int \<Rightarrow> int \<Rightarrow> int" where
  "days_in_month y m =
     (if m = 2 then (if is_leap y then 29 else 28)
      else if m = 4 \<or> m = 6 \<or> m = 9 \<or> m = 11 then 30 else 31)"

text \<open>Days from 1970-01-01 to the day \<open>y-m-d\<close> of the proleptic Gregorian calendar.\<close>

definition days_from_civil :: "int \<Rightarrow> int \<Rightarrow> int \<Rightarrow> int" where
  "days_from_civil y m d =
     (let y' = (if m \<le> 2 then y - 1 else y);
          era = y' div 400;
          yoe = y' - era * 400;
          mp = (m + 9) mod 12;
          doy = (153 * mp + 2) div 5 + d - 1;
          doe = yoe * 365 + yoe div 4 - yoe div 100 + doy
      in era * 146097 + doe - 719468)"

text \<open>The calendar day (year, month 1..12, day) of a day number.\<close>

definition civil_from_days :: "int \<Rightarrow> int \<times> int \<times> int" where
  "civil_from_days z =
     (let z' = z + 719468;
          era = z' div 146097;
          doe = z' - era * 146097;
          yoe = (doe - doe div 1460 + doe div 36524 - doe div 146096) div 365;
          doy = doe - (365 * yoe + yoe div 4 - yoe div 100);
          mp = (5 * doy + 2) div 153;
          d = doy - (153 * mp + 2) div 5 + 1;
          m = (if mp < 10 then mp + 3 else mp - 9);
          y = yoe + era * 400
      in (if m \<le> 2 then y + 1 else y, m, d))"

text \<open>
  A string \<open>YYYY-MM-DD\<close> that names a day of the calendar: the form an
  \<open>input type="date"\<close> yields.
\<close>

definition parse_iso_date :: "string \<Rightarrow> (int \<times> int \<times> int) option" where
  "parse_iso_date s =
     (if length s = 10 \<and> s ! 4 = CHR ''-'' \<and> s ! 7 = CHR ''-'' \<and>
         list_all is_digit (take 4 s) \<and> list_all is_digit (take 2 (drop 5 s)) \<and>
         list_all is_digit (drop 8 s)
      then (let y = int (digits_val (take 4 s));
                m = int (digits_val (take 2 (drop 5 s)));
                d = int (digits_val (drop 8 s))
            in if 1 \<le> m \<and> m \<le> 12 \<and> 1 \<le> d \<and> d \<le> days_in_month y m then Some (y, m, d) else None)
      else None)"

text \<open>
  \<open>new Date(birthDate)\<close> on a string. ECMAScript reads the date-only form as midnight
  UTC; every other string is left to the platform.
\<close>

definition new_Date :: "platform \<Rightarrow> string \<Rightarrow> int option" where
  "new_Date env s =
     (case parse_iso_date s of
        Some (y, m, d) \<Rightarrow> Some (days_from_civil y m d * msPerDay)
      | None \<Rightarrow> implParse env s)"

text \<open>\<open>getFullYear\<close>, \<open>getMonth\<close> and \<open>getDate\<close> read the date in local time.\<close>

definition local_civil :: "platform \<Rightarrow> int \<Rightarrow> int \<times> int \<times> int" where
  "local_civil env t = civil_from_days ((t + localTZA env t) div msPerDay)"

definition getFullYear :: "platform \<Rightarrow> int \<Rightarrow> int" where
  "getFullYear env t = (case local_civil env t of (y, m, d) \<Rightarrow> y)"

definition getMonth :: "platform \<Rightarrow> int \<Rightarrow> int" where
  "getMonth env t = (case local_civil env t of (y, m, d) \<Rightarrow> m - 1)"

definition getDate :: "platform \<Rightarrow> int \<Rightarrow> int" where
  "getDate env t = (case local_civil env t of (y, m, d) \<Rightarrow> d)"

text \<open>
  The helper \<open>calculateAge\<close> of \<open>evalFormula\<close>. Its parameter is declared a string;
  \<open>None\<close> is a call with \<open>undefined\<close> or \<open>null\<close>.
\<close>

definition calculateAge :: "platform \<Rightarrow> string option \<Rightarrow> int" where
  "calculateAge env birthDate =
     (case birthDate of
        None \<Rightarrow> 0
      | Some s \<Rightarrow>
          if s = [] then 0
          else (case new_Date env s of
                  None \<Rightarrow> 0
                | Some birth \<Rightarrow>
                    (let today = now env;
                         age = getFullYear env today - getFullYear env birth;
                         monthDiff = getMonth env today - getMonth env birth
                     in if monthDiff < 0 \<or> (monthDiff = 0 \<and> getDate env today < getDate env birth)
                        then age - 1 else age)))"

section \<open>Evaluating a formula\<close>

text \<open>
  \<open>new Function(...params, `"use strict"; return (${formula});`)\<close> applied to the values
  is the work of the JavaScript engine: it either returns a value or throws. The engine
  is a parameter; it receives the helper \<open>calculateAge\<close>, the formula and the named
  arguments that come from the context. Here the engine is a function of these alone:
  this is the reading for formulas without effects, whose outcome is the same at every
  call. The pass with an engine that has effects follows further down; on formulas
  without effects the two passes agree.
\<close>

type_synonym engine = "(string option \<Rightarrow> int) \<Rightarrow> string \<Rightarrow> formula_context \<Rightarrow> exn + jsval"

definition helper_names :: "ustring list" where
  "helper_names = map utf16 [''Date'', ''Math'', ''parseInt'', ''parseFloat'', ''calculateAge'']"

text \<open>
  \<open>{ ...safeContext, ...helpers }\<close>: a context entry under the name of a helper is
  replaced by the helper; the other entries reach the function as they are.
\<close>

definition evalContext :: "formula_context \<Rightarrow> formula_context" where
  "evalContext ctx = filter (\<lambda>(k, v). k \<notin> set helper_names) ctx"

text \<open>The \<open>try\<close> block of \<open>evalFormula\<close> in the preview.\<close>

definition evalFormula_try :: "engine \<Rightarrow> platform \<Rightarrow> string \<Rightarrow> formula_context \<Rightarrow> exn + jsval" where
  "evalFormula_try run env formula' ctx =
     (if list_ex blank (map snd ctx) then Inr (JStr [])
      else run (calculateAge env) formula' (evalContext ctx))"

text \<open>
  \<open>evalFormula\<close> of the preview: the \<open>catch\<close> logs and returns \<open>'Error'\<close>. In this reading
  \<open>console.error\<close> is the function of the browser, which returns.
\<close>

definition evalFormula :: "engine \<Rightarrow> platform \<Rightarrow> string \<Rightarrow> formula_context \<Rightarrow> jsval" where
  "evalFormula run env formula' ctx =
     (case evalFormula_try run env formula' ctx of
        Inl error \<Rightarrow> JStr ''Error''
      | Inr v \<Rightarrow> v)"

text \<open>The \<open>try\<close> block of \<open>evalFormula\<close> in the form builder.\<close>

definition evalFormula_try_builder :: "engine \<Rightarrow> platform \<Rightarrow> string \<Rightarrow> formula_context \<Rightarrow> exn + jsval" where
  "evalFormula_try_builder run env formula' ctx = run (calculateAge env) formula' (evalContext ctx)"

definition evalFormula_builder :: "engine \<Rightarrow> platform \<Rightarrow> string \<Rightarrow> formula_context \<Rightarrow> jsval" where
  "evalFormula_builder run env formula' ctx =
     (case evalFormula_try_builder run env formula' ctx of
        Inl error \<Rightarrow> JStr ''Error''
      | Inr v \<Rightarrow> v)"

section \<open>Reconciling the derived fields\<close>

text \<open>The body of \<open>schema.fields.forEach(field => ...)\<close> in the preview.\<close>

definition deriveField ::
  "engine \<Rightarrow> platform \<Rightarrow> field list \<Rightarrow> valuemap \<Rightarrow> field \<Rightarrow> valuemap \<times> bool \<Rightarrow> valuemap \<times> bool" where
  "deriveField run env fs currentValues f st =
     (case st of (newValues, hasChanges) \<Rightarrow>
        if recomputed f then
          (case buildContext env fs currentValues (parentsOf f) of (ctx, hasAllParents) \<Rightarrow>
             if hasAllParents then
               (let computedValue = evalFormula run env (formulaOf f) ctx
                in if strict_neq (lookup newValues (field_id f)) computedValue
                   then (assign newValues (field_id f) computedValue, True)
                   else (newValues, hasChanges))
             else if has_key newValues (field_id f)
                  then (newValues(field_id f := None), True)
                  else (newValues, hasChanges))
        else (newValues, hasChanges))"

text \<open>
  \<open>updateDerivedFields\<close> of the preview. The source returns \<open>newValues\<close> when something
  changed and the object it was given otherwise; its callers compare the result with what
  they passed (\<open>updatedValues !== values\<close>), which the second component records.
\<close>

definition updateDerivedFields ::
  "engine \<Rightarrow> platform \<Rightarrow> form_schema option \<Rightarrow> valuemap \<Rightarrow> valuemap \<times> bool" where
  "updateDerivedFields run env schema currentValues =
     (case schema of
        None \<Rightarrow> (currentValues, False)
      | Some sc \<Rightarrow>
          (case fold (deriveField run env (schema_fields sc) currentValues) (schema_fields sc)
                  (currentValues, False) of
             (newValues, hasChanges) \<Rightarrow>
               (if hasChanges then newValues else currentValues, hasChanges)))"



section \<open>Formulas with effects\<close>

text \<open>
  A formula is code: beside returning or throwing it can change what is around it. The
  world holds what the pass can notice of that. \<open>console_error\<close> says what a call of
  \<open>console.error\<close> does now: \<open>None\<close> when it logs and returns, the exception when it
  throws (a formula can overwrite the function). \<open>intact\<close> holds as long as everything
  else that was there before a formula ran is as it was: the built-in objects and
  functions the source calls, and the objects in the value map. \<open>hidden\<close> is the rest,
  which a formula reads and moves on without changing anything that exists: the clock,
  the random numbers, the addresses of new objects.
\<close>

record world =
  intact :: bool
  console_error :: "exn option"
  hidden :: nat

text \<open>The engine with effects: it starts in a world and leaves one.\<close>

type_synonym fx_engine =
  "world \<Rightarrow> (string option \<Rightarrow> int) \<Rightarrow> string \<Rightarrow> formula_context \<Rightarrow> (exn + jsval) \<times> world"

text \<open>
  \<open>evalFormula\<close> of the preview once more. The \<open>catch\<close> block calls \<open>console.error\<close>
  before it returns \<open>'Error'\<close>; what that call throws leaves \<open>evalFormula\<close>. In a world
  that is not intact, before or after the formula ran, the source's own calls and the
  values in the map are no longer known, and the model says \<open>Unmodelled\<close>.
\<close>

definition evalFormula_fx ::
  "fx_engine \<Rightarrow> platform \<Rightarrow> string \<Rightarrow> formula_context \<Rightarrow> world \<Rightarrow> (exn + jsval) \<times> world" where
  "evalFormula_fx run env formula' ctx w =
     (if \<not> intact w then (Inl Unmodelled, w)
      else if list_ex blank (map snd ctx) then (Inr (JStr []), w)
      else (case run w (calculateAge env) formula' (evalContext ctx) of (outcome, w') \<Rightarrow>
              if \<not> intact w' then (Inl Unmodelled, w')
              else (case outcome of
                      Inr v \<Rightarrow> (Inr v, w')
                    | Inl error \<Rightarrow>
                        (case console_error w' of
                           None \<Rightarrow> (Inr (JStr ''Error''), w')
                         | Some thrown \<Rightarrow> (Inl thrown, w')))))"


text \<open>
  The body of \<open>schema.fields.forEach(field => ...)\<close> in the preview, with the world as
  part of the state. An exception that leaves \<open>evalFormula\<close> leaves the callback.
\<close>

definition deriveField_fx ::
  "fx_engine \<Rightarrow> platform \<Rightarrow> field list \<Rightarrow> valuemap \<Rightarrow> field \<Rightarrow>
     valuemap \<times> bool \<times> world \<Rightarrow> exn + valuemap \<times> bool \<times> world" where
  "deriveField_fx run env fs currentValues f st =
     (case st of (newValues, hasChanges, w) \<Rightarrow>
        if \<not> intact w then Inl Unmodelled
        else if recomputed f then
          (case buildContext env fs currentValues (parentsOf f) of (ctx, hasAllParents) \<Rightarrow>
             if hasAllParents then
               (case evalFormula_fx run env (formulaOf f) ctx w of
                  (Inl thrown, w') \<Rightarrow> Inl thrown
                | (Inr computedValue, w') \<Rightarrow>
                    if strict_neq (lookup newValues (field_id f)) computedValue
                    then Inr (assign newValues (field_id f) computedValue, True, w')
                    else Inr (newValues, hasChanges, w'))
             else if has_key newValues (field_id f)
                  then Inr (newValues(field_id f := None), True, w)
                  else Inr (newValues, hasChanges, w))
        else Inr (newValues, hasChanges, w))"

text \<open>\<open>forEach\<close> with a callback that may throw: the first exception ends the loop.\<close>

fun forEach :: "('a \<Rightarrow> 's \<Rightarrow> exn + 's) \<Rightarrow> 'a list \<Rightarrow> 's \<Rightarrow> exn + 's" where
  "forEach step [] s = Inr s"
| "forEach step (x # xs) s =
     (case step x s of
        Inl thrown \<Rightarrow> Inl thrown
      | Inr s' \<Rightarrow> forEach step xs s')"

text \<open>
  \<open>updateDerivedFields\<close> of the preview with an engine that has effects: the map it
  returns, whether that is a new object, and the world it leaves; or the exception that
  ended it.
\<close>

definition updateDerivedFields_fx ::
  "fx_engine \<Rightarrow> platform \<Rightarrow> form_schema option \<Rightarrow> valuemap \<Rightarrow> world \<Rightarrow>
     exn + valuemap \<times> bool \<times> world" where
  "updateDerivedFields_fx run env schema currentValues w =
     (case schema of
        None \<Rightarrow> Inr (currentValues, False, w)
      | Some sc \<Rightarrow>
          (case forEach (deriveField_fx run env (schema_fields sc) currentValues)
                  (schema_fields sc) (currentValues, False, w) of
             Inl thrown \<Rightarrow> Inl thrown
           | Inr (newValues, hasChanges, w') \<Rightarrow>
               Inr (if hasChanges then newValues else currentValues, hasChanges, w')))"

section \<open>Validation on submit\<close>













section \<open>Saved forms\<close>

text \<open>
  \<open>localStorage\<close>: the records in the order \<open>Object.keys\<close> lists their keys.
  \<open>JSON.parse\<close> is a parameter: it returns the parsed record or throws. A text that
  parses to something other than a saved form is not considered.
\<close>

type_synonym storage = "(string \<times> string) list"

definition getItem :: "storage \<Rightarrow> string \<Rightarrow> string option" where
  "getItem st key = map_of st key"

definition startsWith :: "string \<Rightarrow> string \<Rightarrow> bool" where
  "startsWith s p \<longleftrightarrow> take (length p) s = p"

text \<open>The function mapped over \<open>formKeys\<close> in \<open>MyForms\<close>; \<open>None\<close> is \<open>null\<close>.\<close>

definition loadForm :: "(string \<Rightarrow> exn + 'd) \<Rightarrow> storage \<Rightarrow> string \<Rightarrow> (string \<times> 'd) option" where
  "loadForm parse st key =
     (case getItem st key of
        None \<Rightarrow> None
      | Some raw \<Rightarrow>
          if raw = [] then None
          else (case parse raw of
                  Inr data \<Rightarrow> Some (key, data)
                | Inl e \<Rightarrow> None))"

text \<open>The list given to \<open>setForms\<close>; \<open>.filter(Boolean)\<close> drops the \<open>null\<close>s.\<close>

definition loadedForms :: "(string \<Rightarrow> exn + 'd) \<Rightarrow> storage \<Rightarrow> (string \<times> 'd) list" where
  "loadedForms parse st =
     List.map_filter (loadForm parse st) (filter (\<lambda>key. startsWith key ''form_'') (map fst st))"

record preview_state =
  schema :: "form_schema option"
  formValues :: valuemap

text \<open>
  \<open>defaults[f.id] = f.defaultValue || (f.type === 'checkbox' ? [] : '')\<close> for the fields
  that are not derived. The fresh array of a checkbox field gets the position of the
  field as its address.
\<close>

definition defaultOf :: "nat \<times> field \<Rightarrow> valuemap \<Rightarrow> valuemap" where
  "defaultOf p defaults =
     (case p of (i, f) \<Rightarrow>
        if not_derived f
        then defaults(field_id f \<mapsto>
               (case defaultValue f of
                  Some d \<Rightarrow> if d \<noteq> [] then JStr d
                            else if field_type f = ''checkbox'' then JArr i [] else JStr []
                | None \<Rightarrow> if field_type f = ''checkbox'' then JArr i [] else JStr []))
        else defaults)"

definition defaultsOf :: "field list \<Rightarrow> valuemap" where
  "defaultsOf fs = fold defaultOf (enumerate 0 fs) Map.empty"

text \<open>
  The loading effect of \<open>PreviewForm\<close>; a missing or empty \<open>formId\<close> and a missing
  or empty record leave the state as it is. Nothing encloses \<open>JSON.parse(stored)\<close>, so what it
  throws leaves the effect: \<open>Inl\<close> is that exception.
\<close>

definition loadPreview ::
  "(string \<Rightarrow> exn + form_schema) \<Rightarrow> storage \<Rightarrow> string option \<Rightarrow> preview_state \<Rightarrow> exn + preview_state" where
  "loadPreview parse st formId s =
     (case formId of
        None \<Rightarrow> Inr s
      | Some key \<Rightarrow>
          if key = [] then Inr s
          else (case getItem st key of
                  None \<Rightarrow> Inr s
                | Some stored \<Rightarrow>
                    if stored = [] then Inr s
                    else (case parse stored of
                            Inl e \<Rightarrow> Inl e
                          | Inr parsed \<Rightarrow>
                              Inr (s\<lparr>schema := Some parsed,
                                     formValues := defaultsOf (schema_fields parsed)\<rparr>))))"

text \<open>\<open>if (!schema) return <Typography>Loading form...</Typography>\<close>.\<close>

datatype view = Loading | FormView form_schema

definition render :: "preview_state \<Rightarrow> view" where
  "render s = (case schema s of None \<Rightarrow> Loading | Some sc \<Rightarrow> FormView sc)"

section \<open>A fragment of the engine\<close>

text \<open>
  For statements about concrete formulas the engine is instantiated with the fragment of
  JavaScript below. The parameter names are lower-case identifiers that are no reserved
  words. A formula made of letters and parentheses with more opening than closing
  parentheses does not parse. A formula that is the name of a parameter evaluates to its
  argument; \<open>x * k\<close>, with a decimal literal \<open>k\<close>, and \<open>x / y\<close> convert the arguments to
  numbers and multiply or divide; \<open>calculateAge(x)\<close> calls the helper on a string
  argument. On every other input the fragment says \<^const>\<open>Unmodelled\<close>, and nothing is
  stated there.
\<close>

definition reserved_words :: "string list" where
  "reserved_words =
     [''break'', ''case'', ''catch'', ''class'', ''const'', ''continue'', ''debugger'',
      ''default'', ''delete'', ''do'', ''else'', ''enum'', ''export'', ''extends'', ''false'',
      ''finally'', ''for'', ''function'', ''if'', ''import'', ''in'', ''instanceof'', ''new'',
      ''null'', ''return'', ''super'', ''switch'', ''this'', ''throw'', ''true'', ''try'',
      ''typeof'', ''var'', ''void'', ''while'', ''with'', ''yield'', ''let'', ''static'',
      ''implements'', ''interface'', ''package'', ''private'', ''protected'', ''public'',
      ''await'', ''eval'', ''arguments'']"

definition name_char :: "char \<Rightarrow> bool" where
  "name_char c \<longleftrightarrow> c \<in> set ''abcdefghijklmnopqrstuvwxyz_''"

definition is_name :: "ustring \<Rightarrow> bool" where
  "is_name n \<longleftrightarrow>
     n \<noteq> [] \<and> list_all (\<lambda>u. u \<in> set (utf16 ''abcdefghijklmnopqrstuvwxyz_'')) n \<and>
     n \<notin> set (map utf16 reserved_words)"

definition is_literal :: "string \<Rightarrow> bool" where
  "is_literal k \<longleftrightarrow>
     k \<noteq> [] \<and> list_all is_digit k \<and> length k \<le> 15 \<and> (hd k \<noteq> CHR ''0'' \<or> k = ''0'')"

text \<open>\<open>ToNumber\<close> where the fragment knows it: numbers and strings of decimal digits.\<close>

fun to_number :: "jsval \<Rightarrow> jsval option" where
  "to_number (JNum n) = Some (JNum n)"
| "to_number JNaN = Some JNaN"
| "to_number (JStr s) =
     (if s \<noteq> [] \<and> list_all is_digit s \<and> length s \<le> 15 then Some (JNum (real (digits_val s)))
      else None)"
| "to_number (JInfinity b) = None"
| "to_number JUndefined = None"
| "to_number JNull = None"
| "to_number (JBool b) = None"
| "to_number (JArr a xs) = None"
| "to_number (JBuiltin b) = None"

text \<open>The product of two integers, where a double holds it exactly.\<close>

definition times :: "jsval \<Rightarrow> nat \<Rightarrow> exn + jsval" where
  "times v k =
     (case to_number v of
        Some (JNum n) \<Rightarrow>
          if n = of_int \<lfloor>n\<rfloor> \<and> \<bar>n * real k\<bar> < 9007199254740992 then Inr (JNum (n * real k))
          else Inl Unmodelled
      | Some JNaN \<Rightarrow> Inr JNaN
      | _ \<Rightarrow> Inl Unmodelled)"

text \<open>The quotient where it needs no rounding: zero by zero is \<open>NaN\<close>, and \<open>n / 1\<close> is \<open>n\<close>.\<close>

definition divide_by :: "jsval \<Rightarrow> jsval \<Rightarrow> exn + jsval" where
  "divide_by v u =
     (case (to_number v, to_number u) of
        (Some (JNum n), Some (JNum m)) \<Rightarrow>
          if n = 0 \<and> m = 0 then Inr JNaN
          else if m = 1 then Inr (JNum n)
          else Inl Unmodelled
      | _ \<Rightarrow> Inl Unmodelled)"

definition js_fragment :: engine where
  "js_fragment calcAge formula' params =
     (if \<not> list_all is_name (map fst params) \<or> \<not> distinct (map fst params) then Inl Unmodelled
      else if list_all (\<lambda>c. c \<in> set ''abcdefghijklmnopqrstuvwxyz()'') formula' \<and>
              count_list formula' CHR '')'' < count_list formula' CHR ''(''
      then Inl SyntaxError
      else if take 13 formula' = ''calculateAge('' \<and> drop (length formula' - 1) formula' = '')''
      then (case map_of params (utf16 (take (length formula' - 14) (drop 13 formula'))) of
              Some (JStr s) \<Rightarrow> Inr (JNum (of_int (calcAge (Some s))))
            | _ \<Rightarrow> Inl Unmodelled)
      else (case map_of params (utf16 (takeWhile name_char formula')) of
              Some v \<Rightarrow>
                (let rest = dropWhile name_char formula'
                 in if rest = [] then Inr v
                    else if take 3 rest = '' * '' \<and> is_literal (drop 3 rest)
                    then times v (digits_val (drop 3 rest))
                    else if take 3 rest = '' / ''
                    then (case map_of params (utf16 (drop 3 rest)) of
                            Some u \<Rightarrow> divide_by v u
                          | None \<Rightarrow> Inl Unmodelled)
                    else Inl Unmodelled)
            | None \<Rightarrow> Inl Unmodelled))"

text \<open>
  The same fragment as an engine with effects: its formulas have none. Two formulas
  more. \<open>(console.error = null, nosuch)\<close>, where no parameter is called \<open>console\<close> or
  \<open>nosuch\<close>, overwrites \<open>console.error\<close>, after which a call of it is a type error, and
  then fails on the unknown identifier. \<open>[]\<close> makes a new array; here \<open>hidden\<close> counts the
  objects made so far and the count is the address of the next one.
\<close>

definition js_fragment_fx :: fx_engine where
  "js_fragment_fx w calcAge formula' params =
     (if formula' = ''(console.error = null, nosuch)'' \<and> list_all is_name (map fst params) \<and>
         distinct (map fst params) \<and> utf16 ''console'' \<notin> set (map fst params) \<and>
         utf16 ''nosuch'' \<notin> set (map fst params)
      then (Inl ReferenceError, w\<lparr>console_error := Some TypeError\<rparr>)
      else if formula' = ''[]'' \<and> list_all is_name (map fst params) \<and> distinct (map fst params)
      then (Inr (JArr (hidden w) []), w\<lparr>hidden := Suc (hidden w)\<rparr>)
      else (js_fragment calcAge formula' params, w))"


section \<open>What one pass leaves in an entry\<close>

text \<open>
  Names for the two results of the parent loop and for the value the pass computes for a
  field, all read from the map the pass was given.
\<close>

definition hasAllParents :: "platform \<Rightarrow> field list \<Rightarrow> valuemap \<Rightarrow> field \<Rightarrow> bool" where
  "hasAllParents env fs cur f = snd (buildContext env fs cur (parentsOf f))"

definition contextOf :: "platform \<Rightarrow> field list \<Rightarrow> valuemap \<Rightarrow> field \<Rightarrow> formula_context" where
  "contextOf env fs cur f = fst (buildContext env fs cur (parentsOf f))"

definition computedValue :: "engine \<Rightarrow> platform \<Rightarrow> field list \<Rightarrow> valuemap \<Rightarrow> field \<Rightarrow> jsval" where
  "computedValue run env fs cur f = evalFormula run env (formulaOf f) (contextOf env fs cur f)"

text \<open>
  An entry as \<open>values[id]\<close> reads it, and the entry an assignment leaves, given the own
  entry under the id.
\<close>

definition readEntry :: "string \<Rightarrow> jsval option \<Rightarrow> jsval" where
  "readEntry k old =
     (case old of
        Some v \<Rightarrow> v
      | None \<Rightarrow> if inherited k then JBuiltin k else JUndefined)"

definition writtenEntry :: "string \<Rightarrow> jsval option \<Rightarrow> jsval \<Rightarrow> jsval option" where
  "writtenEntry k old v = (if k = ''__proto__'' \<and> old = None then None else Some v)"

text \<open>
  The entry of a field after its step, given the entry before it and the value computed
  for the field when all its parents are there.
\<close>

definition entryWith :: "bool \<Rightarrow> jsval \<Rightarrow> string \<Rightarrow> jsval option \<Rightarrow> jsval option" where
  "entryWith allThere v k old =
     (if allThere
      then (if strict_neq (readEntry k old) v then writtenEntry k old v else old)
      else None)"

definition entryAfter ::
  "engine \<Rightarrow> platform \<Rightarrow> field list \<Rightarrow> valuemap \<Rightarrow> field \<Rightarrow> jsval option \<Rightarrow> jsval option" where
  "entryAfter run env fs cur f old =
     entryWith (hasAllParents env fs cur f) (computedValue run env fs cur f) (field_id f) old"


text \<open>
  The names under which every assignment of a pass is an ordinary one: no field has the
  id \<open>__proto__\<close>, and no label normalises to \<open>__proto__\<close>.
\<close>

definition ordinary_names :: "platform \<Rightarrow> field list \<Rightarrow> bool" where
  "ordinary_names env fs \<longleftrightarrow>
     (\<forall>g\<in>set fs. field_id g \<noteq> ''__proto__'' \<and>
                   variableName env (label g) \<noteq> utf16 ''__proto__'')"


text \<open>
  A world that no formula has touched, and formulas that leave it so: the formulas of the
  fields may read the clock, draw random numbers, make new objects and throw, but they
  change nothing that exists.
\<close>

definition untouched :: "world \<Rightarrow> bool" where
  "untouched w \<longleftrightarrow> intact w \<and> console_error w = None"


text \<open>
  Formulas without effects: the outcome of each formula of the fields is a function of
  the helper, the formula and the arguments, the same in every world, and the world is
  left as it was found.
\<close>

definition effect_free :: "fx_engine \<Rightarrow> engine \<Rightarrow> field list \<Rightarrow> bool" where
  "effect_free run r fs \<longleftrightarrow>
     (\<forall>f\<in>set fs. \<forall>w c ctx. run w c (formulaOf f) ctx = (r c (formulaOf f) ctx, w))"


section \<open>Sample forms and clocks\<close>

text \<open>A field as \<open>addField\<close> makes it, with an id, a type and a label.\<close>

definition plainField :: "string \<Rightarrow> string \<Rightarrow> string \<Rightarrow> field" where
  "plainField i t l =
     \<lparr>derived = None, parentFields = None, formula = None, field_id = i, field_type = t,
      label = utf16 l, defaultValue = None, options = None,
      validation = \<lparr>required = False, minLength = None, maxLength = None, email = None,
                    password = None, correctAnswers = None, correctAnswer = None\<rparr>\<rparr>"

text \<open>The same field after the author marked it derived and gave parents and a formula.\<close>

definition derivedField :: "string \<Rightarrow> string \<Rightarrow> string list \<Rightarrow> string \<Rightarrow> field" where
  "derivedField i l ps fm =
     (plainField i ''text'' l)\<lparr>derived := Some True, parentFields := Some ps, formula := Some fm\<rparr>"

text \<open>The same field with the box \<open>Required\<close> ticked.\<close>

definition requiredField :: "field \<Rightarrow> field" where
  "requiredField f = f\<lparr>validation := (validation f)\<lparr>required := True\<rparr>\<rparr>"

text \<open>The scenario of the specification: Score and its double.\<close>

definition score_form :: form_schema where
  "score_form =
     \<lparr>schema_name = ''scores'',
      schema_fields = [plainField ''a'' ''number'' ''Score'',
                       derivedField ''b'' ''Double'' [''a''] ''score * 2'']\<rparr>"

text \<open>A score, a total and their ratio.\<close>

definition ratio_form :: form_schema where
  "ratio_form =
     \<lparr>schema_name = ''ratios'',
      schema_fields = [plainField ''a'' ''number'' ''Score'',
                       plainField ''b'' ''number'' ''Total'',
                       derivedField ''c'' ''Ratio'' [''a'', ''b''] ''score / total'']\<rparr>"

text \<open>A chain: \<open>y\<close> copies \<open>x\<close>, \<open>z\<close> copies \<open>y\<close>, and the derived parent \<open>y\<close> stands before \<open>z\<close>.\<close>

definition chain_form :: form_schema where
  "chain_form =
     \<lparr>schema_name = ''chain'',
      schema_fields = [plainField ''a'' ''text'' ''X'',
                       derivedField ''b'' ''Y'' [''a''] ''x'',
                       derivedField ''c'' ''Z'' [''b''] ''y'']\<rparr>"

text \<open>A formula that does not parse, before one that does.\<close>

definition broken_form :: form_schema where
  "broken_form =
     \<lparr>schema_name = ''broken'',
      schema_fields = [plainField ''a'' ''number'' ''Score'',
                       derivedField ''b'' ''Bad'' [''a''] ''bad((('',
                       derivedField ''c'' ''Double'' [''a''] ''score * 2'']\<rparr>"

text \<open>A formula that overwrites \<open>console.error\<close> and then fails, before one that works.\<close>

definition sabotage_form :: form_schema where
  "sabotage_form =
     \<lparr>schema_name = ''sabotage'',
      schema_fields = [plainField ''a'' ''number'' ''Score'',
                       derivedField ''b'' ''Bad'' [''a''] ''(console.error = null, nosuch)'',
                       derivedField ''c'' ''Double'' [''a''] ''score * 2'']\<rparr>"

text \<open>A field whose formula makes a new array.\<close>

definition fresh_form :: form_schema where
  "fresh_form =
     \<lparr>schema_name = ''fresh'',
      schema_fields = [plainField ''a'' ''text'' ''Tags'',
                       derivedField ''b'' ''List'' [''a''] ''[]'']\<rparr>"

text \<open>A parent whose label is \<open>__proto__\<close>.\<close>

definition proto_form :: form_schema where
  "proto_form =
     \<lparr>schema_name = ''proto'',
      schema_fields = [plainField ''a'' ''text'' ''__proto__'',
                       derivedField ''b'' ''Copy'' [''a''] ''x'']\<rparr>"

text \<open>Two parents whose labels normalise to the same variable.\<close>

definition names_form :: form_schema where
  "names_form =
     \<lparr>schema_name = ''collision'',
      schema_fields = [plainField ''a'' ''text'' ''First Name'',
                       plainField ''b'' ''text'' ''first  name'',
                       derivedField ''c'' ''Greeting'' [''a'', ''b''] ''first_name'']\<rparr>"

text \<open>A required text field and a derived field that carries the same validation block.\<close>

definition signup_form :: form_schema where
  "signup_form =
     \<lparr>schema_name = ''signup'',
      schema_fields = [requiredField (plainField ''a'' ''text'' ''Name''),
                       requiredField (derivedField ''b'' ''Copy'' [''a''] ''name'')]\<rparr>"

text \<open>
  \<open>toLowerCase\<close> on code units below 256: the capitals of ASCII and Latin-1 move up by
  32, the others stay. The samples have no other code units, and on those this is not
  the function of the browser.
\<close>

definition latin1_lower :: "ustring \<Rightarrow> ustring" where
  "latin1_lower l =
     map (\<lambda>u. if (65 \<le> u \<and> u \<le> 90) \<or> (192 \<le> u \<and> u \<le> 222 \<and> u \<noteq> 215) then u + 32 else u) l"

text \<open>
  Noon of 2024-06-14 and of 2024-06-15 on a clock in UTC, and noon of 2024-06-14 on a
  clock five hours behind UTC (17:00 UTC). The platform parses no other date format.
\<close>

definition utc_june_14 :: platform where
  "utc_june_14 =
     \<lparr>now = 1718366400000, localTZA = (\<lambda>t. 0), implParse = (\<lambda>s. None),
      toLowerCase = latin1_lower\<rparr>"

definition utc_june_15 :: platform where
  "utc_june_15 =
     \<lparr>now = 1718452800000, localTZA = (\<lambda>t. 0), implParse = (\<lambda>s. None),
      toLowerCase = latin1_lower\<rparr>"

definition west_june_14 :: platform where
  "west_june_14 =
     \<lparr>now = 1718384400000, localTZA = (\<lambda>t. - 18000000), implParse = (\<lambda>s. None),
      toLowerCase = latin1_lower\<rparr>"

text \<open>The world before any formula has run.\<close>

definition fresh_world :: world where
  "fresh_world = \<lparr>intact = True, console_error = None, hidden = 0\<rparr>"

text \<open>
  \<open>JSON.parse\<close> where the outcome can be read off the first character: a JSON text starts,
  after white space, with a brace, a bracket, a double quote, a minus sign, a digit or the first letter of \<open>true\<close>,
  \<open>false\<close> or \<open>null\<close>; any other text is a syntax error. Texts that start well are left
  \<^const>\<open>Unmodelled\<close>.
\<close>

definition json_space :: "char \<Rightarrow> bool" where
  "json_space c \<longleftrightarrow> c \<in> set [CHR '' '', CHR 0x09, CHR 0x0A, CHR 0x0D]"

definition json_parse_head :: "string \<Rightarrow> exn + form_schema" where
  "json_parse_head raw =
     (case dropWhile json_space raw of
        [] \<Rightarrow> Inl SyntaxError
      | c # cs \<Rightarrow> if c \<in> set (CHR 0x22 # ''{[-0123456789tfn'') then Inl Unmodelled else Inl SyntaxError)"

definition one_bad_record :: storage where
  "one_bad_record = [(''form_x'', ''corrupted'')]"

definition empty_preview :: preview_state where
  "empty_preview = \<lparr>schema = None, formValues = Map.empty\<rparr>"

section \<open>One step and one pass of the reconciler\<close>

lemma deriveField_other:
  "k \<noteq> field_id f \<Longrightarrow> fst (deriveField run env fs cur f st) k = fst st k"
  by (cases st) (simp add: deriveField_def assign_def Let_def split: prod.splits)

lemma deriveField_skip:
  "\<not> recomputed f \<Longrightarrow> deriveField run env fs cur f st = st"
  by (cases st) (simp add: deriveField_def)

lemma deriveField_entry:
  "recomputed f \<Longrightarrow>
   fst (deriveField run env fs cur f st) (field_id f)
     = entryAfter run env fs cur f (fst st (field_id f))"
  by (cases st)
     (auto simp: deriveField_def entryAfter_def entryWith_def readEntry_def writtenEntry_def
        hasAllParents_def computedValue_def contextOf_def lookup_def assign_def has_key_def
        Let_def split: prod.splits)

lemma fold_deriveField_frame:
  "(\<And>f. f \<in> set gs \<Longrightarrow> recomputed f \<Longrightarrow> field_id f \<noteq> k) \<Longrightarrow>
   fst (fold (deriveField run env fs cur) gs st) k = fst st k"
proof (induction gs arbitrary: st)
  case Nil
  then show ?case by simp
next
  case (Cons g gs)
  have "fst (deriveField run env fs cur g st) k = fst st k"
  proof (cases "recomputed g")
    case True
    then have "field_id g \<noteq> k" using Cons.prems by simp
    then show ?thesis by (simp add: deriveField_other)
  next
    case False
    then show ?thesis by (simp add: deriveField_skip)
  qed
  moreover have "fst (fold (deriveField run env fs cur) gs (deriveField run env fs cur g st)) k
      = fst (deriveField run env fs cur g st) k"
    using Cons.prems by (intro Cons.IH) simp_all
  ultimately show ?case by simp
qed

lemma other_ids:
  "distinct (map field_id (g # gs)) \<Longrightarrow> h \<in> set gs \<Longrightarrow> field_id h \<noteq> field_id g"
proof -
  assume d: "distinct (map field_id (g # gs))" and h: "h \<in> set gs"
  have "field_id h \<in> field_id ` set gs" using h by (rule imageI)
  moreover have "field_id g \<notin> field_id ` set gs" using d by simp
  ultimately show ?thesis by metis
qed

lemma fold_deriveField_entry:
  "distinct (map field_id gs) \<Longrightarrow> f \<in> set gs \<Longrightarrow> recomputed f \<Longrightarrow>
   fst (fold (deriveField run env fs cur) gs st) (field_id f)
     = entryAfter run env fs cur f (fst st (field_id f))"
proof (induction gs arbitrary: st)
  case Nil
  then show ?case by simp
next
  case (Cons g gs)
  show ?case
  proof (cases "g = f")
    case True
    have "\<And>h. h \<in> set gs \<Longrightarrow> field_id h \<noteq> field_id f"
      using other_ids[OF Cons.prems(1)] True by simp
    then have "fst (fold (deriveField run env fs cur) gs (deriveField run env fs cur f st)) (field_id f)
        = fst (deriveField run env fs cur f st) (field_id f)"
      by (intro fold_deriveField_frame) simp
    then show ?thesis using True Cons.prems(3) by (simp add: deriveField_entry)
  next
    case False
    then have mem: "f \<in> set gs" using Cons.prems(2) by simp
    have "field_id f \<noteq> field_id g" using other_ids[OF Cons.prems(1) mem] .
    then have "fst (deriveField run env fs cur g st) (field_id f) = fst st (field_id f)"
      by (simp add: deriveField_other)
    moreover have "fst (fold (deriveField run env fs cur) gs (deriveField run env fs cur g st)) (field_id f)
        = entryAfter run env fs cur f (fst (deriveField run env fs cur g st) (field_id f))"
      using Cons.prems mem by (intro Cons.IH) simp_all
    ultimately show ?thesis by simp
  qed
qed

lemma deriveField_flag:
  "deriveField run env fs cur f (nv, hc) = (nv', hc') \<Longrightarrow> (hc \<longrightarrow> hc') \<and> (hc' \<or> nv' = nv)"
  by (auto simp: deriveField_def Let_def split: prod.splits if_splits)

lemma fold_deriveField_flag:
  "fold (deriveField run env fs cur) gs (nv, hc) = (nv', hc') \<Longrightarrow>
   (hc \<longrightarrow> hc') \<and> (hc' \<or> nv' = nv)"
proof (induction gs arbitrary: nv hc)
  case Nil
  then show ?case by simp
next
  case (Cons g gs)
  obtain nv1 hc1 where s1: "deriveField run env fs cur g (nv, hc) = (nv1, hc1)"
    by (cases "deriveField run env fs cur g (nv, hc)")
  from deriveField_flag[OF s1] have a: "(hc \<longrightarrow> hc1) \<and> (hc1 \<or> nv1 = nv)" .
  from Cons.prems s1 have "fold (deriveField run env fs cur) gs (nv1, hc1) = (nv', hc')" by simp
  from Cons.IH[OF this] have b: "(hc1 \<longrightarrow> hc') \<and> (hc' \<or> nv' = nv1)" .
  from a b show ?case by blast
qed

text \<open>The map the preview returns is the working copy, changed or not.\<close>

lemma updateDerivedFields_fst:
  "fst (updateDerivedFields run env (Some sc) cur)
     = fst (fold (deriveField run env (schema_fields sc) cur) (schema_fields sc) (cur, False))"
proof -
  obtain nv hc where
    r: "fold (deriveField run env (schema_fields sc) cur) (schema_fields sc) (cur, False) = (nv, hc)"
    by (cases "fold (deriveField run env (schema_fields sc) cur) (schema_fields sc) (cur, False)")
  from fold_deriveField_flag[OF r] have "hc \<or> nv = cur" by simp
  then show ?thesis using r by (auto simp: updateDerivedFields_def)
qed

lemma updateDerivedFields_snd:
  "snd (updateDerivedFields run env (Some sc) cur)
     = snd (fold (deriveField run env (schema_fields sc) cur) (schema_fields sc) (cur, False))"
  by (simp add: updateDerivedFields_def split: prod.splits)

text \<open>The entry of a recomputed field after a pass of the preview, for unique ids.\<close>

lemma updateDerivedFields_entry:
  assumes "distinct (map field_id (schema_fields sc))"
    and "f \<in> set (schema_fields sc)" and "recomputed f"
  shows "fst (updateDerivedFields run env (Some sc) cur) (field_id f)
           = entryAfter run env (schema_fields sc) cur f (cur (field_id f))"
  using fold_deriveField_entry[OF assms, of run env "schema_fields sc" cur "(cur, False)"]
  by (simp add: updateDerivedFields_fst)

lemma fold_deriveField_noop:
  "(\<And>f. f \<in> set gs \<Longrightarrow> deriveField run env fs cur f st = st) \<Longrightarrow>
   fold (deriveField run env fs cur) gs st = st"
  by (induction gs) simp_all

section \<open>The parent loop\<close>




lemma addParent_cong:
  "cur p = cur' p \<Longrightarrow> addParent env fs cur p st = addParent env fs cur' p st"
  by (cases st) (simp add: addParent_def lookup_def has_key_def split: option.splits)

lemma fold_addParent_cong:
  "(\<And>p. p \<in> set ps \<Longrightarrow> cur p = cur' p) \<Longrightarrow>
   fold (addParent env fs cur) ps st = fold (addParent env fs cur') ps st"
proof (induction ps arbitrary: st)
  case Nil
  then show ?case by simp
next
  case (Cons p ps)
  have "addParent env fs cur p st = addParent env fs cur' p st"
    using Cons.prems by (intro addParent_cong) simp
  moreover have "fold (addParent env fs cur) ps (addParent env fs cur' p st)
      = fold (addParent env fs cur') ps (addParent env fs cur' p st)"
    using Cons.prems by (intro Cons.IH) simp
  ultimately show ?case by simp
qed

lemma buildContext_cong:
  "(\<And>p. p \<in> set ps \<Longrightarrow> cur p = cur' p) \<Longrightarrow>
   buildContext env fs cur ps = buildContext env fs cur' ps"
  unfolding buildContext_def by (rule fold_addParent_cong)

section \<open>Values of formulas\<close>


lemma evalFormula_blank:
  "list_ex blank (map snd ctx) \<Longrightarrow> evalFormula run env fm ctx = JStr []"
  by (simp add: evalFormula_def evalFormula_try_def)



section \<open>One pass of the form builder\<close>





section \<open>Evaluating the definitions on the samples\<close>

lemmas form_defs = score_form_def ratio_form_def chain_form_def broken_form_def names_form_def
  signup_form_def sabotage_form_def fresh_form_def proto_form_def plainField_def derivedField_def
  requiredField_def

lemmas name_defs = variableName_def utf16_def latin1_lower_def is_white_def utc_june_14_def

lemmas object_defs = lookup_def has_key_def assign_def inherited_def object_prototype_names_def

lemmas context_defs = buildContext_def addParent_def setVariable_def find_field_def parentsOf_def
  formulaOf_def

lemmas pass_defs = updateDerivedFields_def deriveField_def recomputed_def Let_def evalFormula_def
  evalFormula_try_def evalContext_def helper_names_def


lemmas fragment_defs = js_fragment_def is_name_def name_char_def reserved_words_def
  is_literal_def is_digit_def times_def divide_by_def digits_val_def digit_val_def


section \<open>One step and one pass with effects\<close>





section \<open>Formulas without effects\<close>

lemma evalFormula_fx_pure:
  assumes "\<forall>w c ctx. run w c fm ctx = (r c fm ctx, w)" and "untouched w"
  shows "evalFormula_fx run env fm ctx w = (Inr (evalFormula r env fm ctx), w)"
  using assms
  by (simp add: evalFormula_fx_def evalFormula_def evalFormula_try_def untouched_def
      split: sum.splits)

lemma deriveField_fx_pure:
  assumes "\<forall>w c ctx. run w c (formulaOf f) ctx = (r c (formulaOf f) ctx, w)" and "untouched w"
  shows "deriveField_fx run env fs cur f (nv, hc, w)
           = Inr (fst (deriveField r env fs cur f (nv, hc)),
                  snd (deriveField r env fs cur f (nv, hc)), w)"
proof -
  have i: "intact w" using assms(2) by (simp add: untouched_def)
  show ?thesis
    using i
    by (simp add: deriveField_fx_def deriveField_def evalFormula_fx_pure[where run = run and r = r and fm = "formulaOf f", OF assms] Let_def
        split: prod.splits)
qed

lemma forEach_deriveField_fx_pure:
  assumes "effect_free run r fs" and "untouched w"
  shows "set gs \<subseteq> set fs \<Longrightarrow>
     forEach (deriveField_fx run env fs cur) gs (nv, hc, w)
       = Inr (fst (fold (deriveField r env fs cur) gs (nv, hc)),
              snd (fold (deriveField r env fs cur) gs (nv, hc)), w)"
proof (induction gs arbitrary: nv hc)
  case Nil
  then show ?case by simp
next
  case (Cons g gs)
  have "g \<in> set fs" using Cons.prems by simp
  then have p: "\<forall>w c ctx. run w c (formulaOf g) ctx = (r c (formulaOf g) ctx, w)"
    using assms(1) unfolding effect_free_def by blast
  obtain nv1 hc1 where s: "deriveField r env fs cur g (nv, hc) = (nv1, hc1)"
    by (cases "deriveField r env fs cur g (nv, hc)")
  have "deriveField_fx run env fs cur g (nv, hc, w) = Inr (nv1, hc1, w)"
    using deriveField_fx_pure[where run = run and r = r and f = g, OF p assms(2), of env fs cur nv hc] s
    by simp
  moreover have "forEach (deriveField_fx run env fs cur) gs (nv1, hc1, w)
       = Inr (fst (fold (deriveField r env fs cur) gs (nv1, hc1)),
              snd (fold (deriveField r env fs cur) gs (nv1, hc1)), w)"
    using Cons.prems by (intro Cons.IH) simp
  ultimately show ?case using s by simp
qed

text \<open>With formulas without effects the pass is the pass of the functional reading.\<close>

lemma updateDerivedFields_fx_pure:
  assumes "effect_free run r (schema_fields sc)" and "untouched w"
  shows "updateDerivedFields_fx run env (Some sc) cur w
           = Inr (fst (updateDerivedFields r env (Some sc) cur),
                  snd (updateDerivedFields r env (Some sc) cur), w)"
  using forEach_deriveField_fx_pure[OF assms subset_refl, of env cur cur False]
  by (simp add: updateDerivedFields_fx_def updateDerivedFields_def split: prod.splits)


section \<open>The frame of a pass\<close>



section \<open>Incomplete parents\<close>

text \<open>
  A name that every object inherits is a key of the empty map, and reading it gives the
  inherited object; another name is no key.
\<close>

lemma inherited_name_is_a_key:
  "has_key Map.empty ''toString'' \<and> lookup Map.empty ''toString'' = JBuiltin ''toString'' \<and>
   \<not> has_key Map.empty ''a'' \<and> lookup Map.empty ''a'' = JUndefined"
  by (simp add: object_defs)




section \<open>Derived parents\<close>




section \<open>Formulas that throw\<close>




section \<open>A second pass\<close>

lemma deriveField_settled:
  assumes "recomputed f" and "\<not> inherited (field_id f)"
    and "buildContext env fs m (parentsOf f) = buildContext env fs cur (parentsOf f)"
    and "m (field_id f) = entryAfter r env fs cur f (cur (field_id f))"
    and "hasAllParents env fs cur f \<Longrightarrow>
           \<not> strict_neq (computedValue r env fs cur f) (computedValue r env fs cur f)"
  shows "deriveField r env fs m f (m, hc) = (m, hc)"
proof -
  obtain c b where bc: "buildContext env fs cur (parentsOf f) = (c, b)"
    by (cases "buildContext env fs cur (parentsOf f)")
  have b: "b = hasAllParents env fs cur f" and c: "c = contextOf env fs cur f"
    using bc by (simp_all add: hasAllParents_def contextOf_def)
  have name: "field_id f \<noteq> ''__proto__''"
    using assms(2) by (auto simp: inherited_def object_prototype_names_def)
  let ?v = "computedValue r env fs cur f"
  let ?k = "field_id f"
  have v: "evalFormula r env (formulaOf f) c = ?v"
    using c by (simp add: computedValue_def)
  show ?thesis
  proof (cases "hasAllParents env fs cur f")
    case True
    have same: "\<not> strict_neq ?v ?v" using assms(5) True by simp
    have entry: "m ?k = entryWith True ?v ?k (cur ?k)"
      using assms(4) True by (simp add: entryAfter_def)
    have "\<not> strict_neq (lookup m ?k) ?v"
    proof (cases "strict_neq (readEntry ?k (cur ?k)) ?v")
      case True
      then have "m ?k = Some ?v"
        using entry name by (simp add: entryWith_def writtenEntry_def)
      then show ?thesis using same by (simp add: lookup_def)
    next
      case False
      then have "m ?k = cur ?k"
        using entry by (simp add: entryWith_def)
      then show ?thesis using False by (simp add: lookup_def readEntry_def)
    qed
    then show ?thesis
      using assms(1) True b by (simp add: deriveField_def assms(3) bc v)
  next
    case False
    then have "m ?k = None" using assms(4) by (simp add: entryAfter_def entryWith_def)
    then have "\<not> has_key m ?k" using assms(2) by (simp add: has_key_def)
    then show ?thesis
      using assms(1) False b by (simp add: deriveField_def assms(3) bc)
  qed
qed

text \<open>The second pass in the functional reading.\<close>

lemma second_pass_settled:
  assumes "distinct (map field_id (schema_fields sc))"
    and "\<forall>g\<in>set (schema_fields sc). \<not> inherited (field_id g)"
    and "\<forall>f\<in>set (schema_fields sc). recomputed f \<longrightarrow>
           (\<forall>p\<in>set (parentsOf f). \<forall>g\<in>set (schema_fields sc). recomputed g \<longrightarrow> field_id g \<noteq> p)"
    and "\<forall>f\<in>set (schema_fields sc). recomputed f \<and> hasAllParents env (schema_fields sc) cur f \<longrightarrow>
           \<not> strict_neq (computedValue r env (schema_fields sc) cur f)
                        (computedValue r env (schema_fields sc) cur f)"
  shows "updateDerivedFields r env (Some sc) (fst (updateDerivedFields r env (Some sc) cur))
           = (fst (updateDerivedFields r env (Some sc) cur), False)"
proof -
  let ?fs = "schema_fields sc"
  let ?m = "fst (updateDerivedFields r env (Some sc) cur)"
  have settled: "deriveField r env ?fs ?m f (?m, False) = (?m, False)" if f: "f \<in> set ?fs" for f
  proof (cases "recomputed f")
    case False
    then show ?thesis by (rule deriveField_skip)
  next
    case True
    have "?m p = cur p" if p: "p \<in> set (parentsOf f)" for p
    proof -
      have "\<And>g. g \<in> set ?fs \<Longrightarrow> recomputed g \<Longrightarrow> field_id g \<noteq> p"
        using assms(3) f True p by blast
      then have "fst (fold (deriveField r env ?fs cur) ?fs (cur, False)) p = cur p"
        using fold_deriveField_frame[of ?fs p r env ?fs cur "(cur, False)"] by simp
      then show ?thesis by (simp add: updateDerivedFields_fst)
    qed
    then have ctx: "buildContext env ?fs ?m (parentsOf f) = buildContext env ?fs cur (parentsOf f)"
      by (intro buildContext_cong) simp
    have entry: "?m (field_id f) = entryAfter r env ?fs cur f (cur (field_id f))"
      using assms(1) f True by (rule updateDerivedFields_entry)
    have same: "hasAllParents env ?fs cur f \<Longrightarrow>
        \<not> strict_neq (computedValue r env ?fs cur f) (computedValue r env ?fs cur f)"
      using assms(4) f True by blast
    have plain: "\<not> inherited (field_id f)"
      using assms(2) f by blast
    show ?thesis using True plain ctx entry same by (rule deriveField_settled)
  qed
  have "fold (deriveField r env ?fs ?m) ?fs (?m, False) = (?m, False)"
    using settled by (rule fold_deriveField_noop)
  then show ?thesis by (simp add: updateDerivedFields_def)
qed

text \<open>
  A pass asks the platform for the ages that \<open>calculateAge\<close> gives and for the
  lower-casing of labels, and for nothing else.
\<close>

lemma buildContext_same_platform:
  assumes "toLowerCase env' = toLowerCase env"
  shows "buildContext env' fs cur ps = buildContext env fs cur ps"
proof -
  have v: "variableName env' = variableName env"
    by (intro ext) (simp add: variableName_def assms)
  have "addParent env' fs cur = addParent env fs cur"
    unfolding addParent_def v ..
  then show ?thesis by (simp add: buildContext_def)
qed

lemma updateDerivedFields_fx_same_platform:
  assumes "calculateAge env' = calculateAge env" and "toLowerCase env' = toLowerCase env"
  shows "updateDerivedFields_fx run env' schema' cur w = updateDerivedFields_fx run env schema' cur w"
proof -
  have e: "evalFormula_fx run env' fm ctx v = evalFormula_fx run env fm ctx v" for fm ctx v
    by (simp add: evalFormula_fx_def assms(1))
  have ev: "evalFormula_fx run env' = evalFormula_fx run env"
    using e by (intro ext)
  have bc: "buildContext env' = buildContext env"
    using buildContext_same_platform[OF assms(2)] by (intro ext)
  have df: "deriveField_fx run env' = deriveField_fx run env"
    unfolding deriveField_fx_def ev bc ..
  show ?thesis unfolding updateDerivedFields_fx_def df ..
qed

text \<open>
  C6, as the code has it. Take a schema with unique ids, none of them a name that every
  object inherits and no normalised label \<open>__proto__\<close>, in which no parent of a derived field is itself a field the pass
  recomputes. Let the formulas of the schema be without effects: the outcome of each is
  a function of the formula and its arguments, the same at every call, and nothing is
  changed, so no clock, no random number and no new object comes into it. Let every value
  computed for a derived field with all its parents be strictly equal to itself (\<open>NaN\<close>
  is not), and let \<open>calculateAge\<close> give the same ages at the second call as at the first.
  Then the first pass returns, and a pass over the map it returned changes nothing: it
  reports no change and returns that map. This needs no parent to be there: a field with
  a missing parent was cleared by the first pass and stays cleared.
\<close>

theorem second_pass_changes_nothing:
  assumes "effect_free run r (schema_fields sc)" and "untouched w"
    and "calculateAge env' = calculateAge env" and "toLowerCase env' = toLowerCase env"
    and "distinct (map field_id (schema_fields sc))"
    and "\<forall>g\<in>set (schema_fields sc). \<not> inherited (field_id g)"
    and "\<forall>f\<in>set (schema_fields sc). recomputed f \<longrightarrow>
           (\<forall>p\<in>set (parentsOf f). \<forall>g\<in>set (schema_fields sc). recomputed g \<longrightarrow> field_id g \<noteq> p)"
    and "\<forall>f\<in>set (schema_fields sc). recomputed f \<and> hasAllParents env (schema_fields sc) cur f \<longrightarrow>
           \<not> strict_neq (computedValue r env (schema_fields sc) cur f)
                        (computedValue r env (schema_fields sc) cur f)"
    and "ordinary_names env (schema_fields sc)"
  shows "\<exists>m ch. updateDerivedFields_fx run env (Some sc) cur w = Inr (m, ch, w) \<and>
                 updateDerivedFields_fx run env' (Some sc) m w = Inr (m, False, w)"
proof -
  let ?m = "fst (updateDerivedFields r env (Some sc) cur)"
  let ?ch = "snd (updateDerivedFields r env (Some sc) cur)"
  have first: "updateDerivedFields_fx run env (Some sc) cur w = Inr (?m, ?ch, w)"
    using assms(1,2) by (rule updateDerivedFields_fx_pure)
  have "updateDerivedFields_fx run env' (Some sc) ?m w = updateDerivedFields_fx run env (Some sc) ?m w"
    using assms(3,4) by (rule updateDerivedFields_fx_same_platform)
  also have "\<dots> = Inr (fst (updateDerivedFields r env (Some sc) ?m),
                        snd (updateDerivedFields r env (Some sc) ?m), w)"
    using assms(1,2) by (rule updateDerivedFields_fx_pure)
  also have "\<dots> = Inr (?m, False, w)"
    using second_pass_settled[OF assms(5,6,7,8)] by simp
  finally have second: "updateDerivedFields_fx run env' (Some sc) ?m w = Inr (?m, False, w)" .
  from first second show ?thesis by blast
qed

text \<open>C6 on the score form: the double of 10 is 20, and a second pass reports no change.\<close>

theorem second_pass_changes_nothing_witness:
  "updateDerivedFields_fx js_fragment_fx utc_june_14 (Some score_form)
     [''a'' \<mapsto> JStr ''10''] fresh_world
     = Inr ([''a'' \<mapsto> JStr ''10'', ''b'' \<mapsto> JNum 20], True, fresh_world) \<and>
   updateDerivedFields_fx js_fragment_fx utc_june_14 (Some score_form)
     [''a'' \<mapsto> JStr ''10'', ''b'' \<mapsto> JNum 20] fresh_world
     = Inr ([''a'' \<mapsto> JStr ''10'', ''b'' \<mapsto> JNum 20], False, fresh_world)"
proof -
  let ?g = "derivedField ''b'' ''Double'' [''a''] ''score * 2''"
  let ?cur = "[''a'' \<mapsto> JStr ''10'']"
  have fs: "schema_fields score_form = [plainField ''a'' ''number'' ''Score'', ?g]"
    by (simp add: score_form_def)
  have plain: "\<not> recomputed (plainField ''a'' ''number'' ''Score'')"
    by (simp add: plainField_def recomputed_def)
  have p: "effect_free js_fragment_fx js_fragment (schema_fields score_form)"
    by (simp add: effect_free_def form_defs formulaOf_def js_fragment_fx_def)
  have u: "untouched fresh_world"
    by (simp add: untouched_def fresh_world_def)
  have d: "distinct (map field_id (schema_fields score_form))"
    by (simp add: form_defs)
  have n: "\<forall>g\<in>set (schema_fields score_form). \<not> inherited (field_id g)"
    by (simp add: form_defs inherited_def object_prototype_names_def)
  have c: "\<forall>f\<in>set (schema_fields score_form). recomputed f \<longrightarrow>
      (\<forall>p\<in>set (parentsOf f). \<forall>g\<in>set (schema_fields score_form). recomputed g \<longrightarrow> field_id g \<noteq> p)"
    by (simp add: fs plain) (simp add: form_defs parentsOf_def)
  have v: "computedValue js_fragment utc_june_14 (schema_fields score_form) ?cur ?g = JNum 20"
    by (simp add: form_defs name_defs computedValue_def contextOf_def context_defs object_defs
        evalFormula_def evalFormula_try_def evalContext_def helper_names_def fragment_defs)
  have s: "\<forall>f\<in>set (schema_fields score_form).
      recomputed f \<and> hasAllParents utc_june_14 (schema_fields score_form) ?cur f \<longrightarrow>
      \<not> strict_neq (computedValue js_fragment utc_june_14 (schema_fields score_form) ?cur f)
                   (computedValue js_fragment utc_june_14 (schema_fields score_form) ?cur f)"
    using v by (simp add: fs plain)
  have o: "ordinary_names utc_june_14 (schema_fields score_form)"
    by (simp add: ordinary_names_def form_defs name_defs)
  obtain m ch where
    first: "updateDerivedFields_fx js_fragment_fx utc_june_14 (Some score_form) ?cur fresh_world
              = Inr (m, ch, fresh_world)"
    and second: "updateDerivedFields_fx js_fragment_fx utc_june_14 (Some score_form) m fresh_world
              = Inr (m, False, fresh_world)"
    using second_pass_changes_nothing[OF p u refl refl d n c s o] by blast
  have ev: "updateDerivedFields_fx js_fragment_fx utc_june_14 (Some score_form) ?cur fresh_world
      = Inr (?cur(''b'' \<mapsto> JNum 20), True, fresh_world)"
    by (simp add: fresh_world_def form_defs name_defs object_defs context_defs recomputed_def
        updateDerivedFields_fx_def deriveField_fx_def evalFormula_fx_def evalContext_def
        helper_names_def js_fragment_fx_def fragment_defs)
  have m: "m = ?cur(''b'' \<mapsto> JNum 20)" using first ev by simp
  from ev second show ?thesis unfolding m by simp
qed

text \<open>
  C6 as stated fails on a ratio: both parents are there and hold the number 0, nothing is
  chained, the formula gives \<open>NaN\<close>, and since \<open>NaN !== NaN\<close> the second pass reports a
  change again.
\<close>

theorem nan_never_settles_counterexample:
  "hasAllParents utc_june_14 (schema_fields ratio_form) [''a'' \<mapsto> JStr ''0'', ''b'' \<mapsto> JStr ''0'']
     (derivedField ''c'' ''Ratio'' [''a'', ''b''] ''score / total'') \<and>
   fst (updateDerivedFields js_fragment utc_june_14 (Some ratio_form)
          [''a'' \<mapsto> JStr ''0'', ''b'' \<mapsto> JStr ''0'']) ''c'' = Some JNaN \<and>
   snd (updateDerivedFields js_fragment utc_june_14 (Some ratio_form)
          (fst (updateDerivedFields js_fragment utc_june_14 (Some ratio_form)
                  [''a'' \<mapsto> JStr ''0'', ''b'' \<mapsto> JStr ''0''])))"
  by (simp add: form_defs name_defs object_defs context_defs pass_defs fragment_defs
      hasAllParents_def)

text \<open>
  Nor does a formula settle that makes a new object at each call: the array of the
  second pass is not the array of the first, and the second pass reports a change.
\<close>

lemma fresh_object_never_settles:
  "updateDerivedFields_fx js_fragment_fx utc_june_14 (Some fresh_form)
     [''a'' \<mapsto> JStr ''x''] fresh_world
     = Inr ([''a'' \<mapsto> JStr ''x'', ''b'' \<mapsto> JArr 0 []], True, fresh_world\<lparr>hidden := Suc 0\<rparr>) \<and>
   updateDerivedFields_fx js_fragment_fx utc_june_14 (Some fresh_form)
     [''a'' \<mapsto> JStr ''x'', ''b'' \<mapsto> JArr 0 []] (fresh_world\<lparr>hidden := Suc 0\<rparr>)
     = Inr ([''a'' \<mapsto> JStr ''x'', ''b'' \<mapsto> JArr (Suc 0) []], True,
            fresh_world\<lparr>hidden := Suc (Suc 0)\<rparr>)"
  by (simp add: fresh_world_def form_defs name_defs object_defs context_defs recomputed_def
      updateDerivedFields_fx_def deriveField_fx_def evalFormula_fx_def evalContext_def
      helper_names_def js_fragment_fx_def fragment_defs)

section \<open>The names of the variables\<close>







text \<open>White space beyond the code units below 256: U+3000 and U+2003 make one run.\<close>

lemma replace_spaces_wide:
  "replace_spaces [97, 0x3000, 0x2003, 98] = [97, 95, 98] \<and> is_white 0x3000 \<and> is_white 0xFEFF \<and>
   \<not> is_white 0x200B"
  by (simp add: is_white_def)




section \<open>Validation on submit\<close>








section \<open>Empty inputs\<close>

text \<open>
  The evaluator of the preview returns the empty string, whatever the engine would do,
  as soon as a value of the context is the empty string, \<open>undefined\<close> or \<open>null\<close>.
\<close>

lemma preview_short_circuit:
  "list_ex blank (map snd ctx) \<Longrightarrow> evalFormula run env fm ctx = JStr []"
  by (rule evalFormula_blank)

text \<open>
  C3 holds for the evaluator of the preview and fails for its copy in the form builder,
  which has no such test: with an empty value under \<open>x\<close> in the context, the formula \<open>y\<close>
  is run and its value returned, where the preview returns the empty string.
\<close>

theorem builder_runs_formula_on_empty_input:
  "list_ex blank (map snd [(utf16 ''x'', JStr []), (utf16 ''y'', JStr ''ok'')]) \<and>
   evalFormula js_fragment utc_june_14 ''y'' [(utf16 ''x'', JStr []), (utf16 ''y'', JStr ''ok'')] = JStr [] \<and>
   evalFormula_builder js_fragment utc_june_14 ''y'' [(utf16 ''x'', JStr []), (utf16 ''y'', JStr ''ok'')] = JStr ''ok''"
  by (simp add: evalFormula_def evalFormula_try_def evalFormula_builder_def
      evalFormula_try_builder_def evalContext_def helper_names_def utf16_def fragment_defs)

section \<open>Records that do not parse\<close>

lemma loadForm_Some:
  "loadForm parse st key = Some r \<longleftrightarrow>
     (\<exists>raw data. getItem st key = Some raw \<and> raw \<noteq> [] \<and> parse raw = Inr data \<and> r = (key, data))"
  by (auto simp: loadForm_def split: option.splits sum.splits)

lemma in_set_map_filter:
  "y \<in> set (List.map_filter f xs) \<longleftrightarrow> (\<exists>x\<in>set xs. f x = Some y)"
  by (induction xs) (auto simp: map_filter_simps split: option.splits)

text \<open>
  The list of saved forms holds exactly the records under a key that starts with
  \<open>form_\<close> whose text is not empty and parses; a record that does not parse is left
  out and the others stay.
\<close>

lemma saved_forms_listed:
  "(key, data) \<in> set (loadedForms parse st) \<longleftrightarrow>
     key \<in> fst ` set st \<and> startsWith key ''form_'' \<and>
     (\<exists>raw. getItem st key = Some raw \<and> raw \<noteq> [] \<and> parse raw = Inr data)"
  by (auto simp: loadedForms_def in_set_map_filter loadForm_Some)

text \<open>
  C4 holds for the list of saved forms and fails for the preview: the loading effect
  calls \<open>JSON.parse\<close> outside any \<open>try\<close>, so for a stored text that does not parse the
  effect ends with the exception instead of leaving the state without a schema, which is
  the state that renders \<open>Loading form...\<close>.
\<close>

theorem preview_load_throws_on_bad_record:
  "json_parse_head ''corrupted'' = Inl SyntaxError \<and>
   loadedForms json_parse_head one_bad_record = [] \<and>
   loadPreview json_parse_head one_bad_record (Some ''form_x'') empty_preview = Inl SyntaxError \<and>
   render empty_preview = Loading"
  by (simp add: json_parse_head_def json_space_def one_bad_record_def empty_preview_def
      loadedForms_def loadForm_def startsWith_def getItem_def loadPreview_def
      render_def)

section \<open>Ages\<close>

lemma calculateAge_missing:
  "calculateAge env None = 0" and "calculateAge env (Some []) = 0"
  by (simp_all add: calculateAge_def)

lemma calculateAge_unparsable:
  "new_Date env s = None \<Longrightarrow> calculateAge env (Some s) = 0"
  by (simp add: calculateAge_def)

text \<open>
  On the calendar days that the local getters read from the two dates, the age is the
  difference of the years, less one while the birthday of the year is still ahead.
\<close>

lemma calculateAge_local_days:
  assumes "s \<noteq> []" and "new_Date env s = Some birth"
    and "local_civil env (now env) = (ty, tm, td)" and "local_civil env birth = (yb, mb, db)"
  shows "calculateAge env (Some s) = (if tm < mb \<or> (tm = mb \<and> td < db) then ty - yb - 1 else ty - yb)"
  using assms by (simp add: calculateAge_def getFullYear_def getMonth_def getDate_def Let_def)

text \<open>On a clock in UTC the example of the specification comes out as stated.\<close>

lemma calculateAge_utc_example:
  "calculateAge utc_june_14 (Some ''2000-06-15'') = 23 \<and>
   calculateAge utc_june_15 (Some ''2000-06-15'') = 24"
  by code_simp

text \<open>
  C8 fails on a clock behind UTC. The string \<open>2000-06-15\<close> is read as midnight UTC, which
  five hours behind UTC is still the 14th of June 2000; the local getters therefore see
  a birthday on the 14th, and at noon of the 14th of June 2024 the helper returns 24,
  not 23.
\<close>

theorem calculateAge_west_of_utc:
  "new_Date west_june_14 ''2000-06-15'' = Some 961027200000 \<and>
   local_civil west_june_14 961027200000 = (2000, 6, 14) \<and>
   local_civil west_june_14 (now west_june_14) = (2024, 6, 14) \<and>
   calculateAge west_june_14 (Some ''2000-06-15'') = 24"
  by code_simp

end
